theory Spec2Isabelle
  imports Main
begin

section \<open>JavaScript values the program handles\<close>

text \<open>
  A value thrown in JavaScript is either an instance of \<open>Error\<close> (of some class, with a
  message) or any other value. \<open>err instanceof Error\<close> holds for every class of error.
\<close>

datatype error_class = PlainError | SyntaxError | TypeError | OtherError

datatype js_thrown = ErrorObject error_class string | NonError

text \<open>
  What \<open>JSON.parse\<close> returns. The program never inspects a number, so \<open>JNumber\<close>
  carries none; \<open>JObject\<close> lists the own properties of the parsed object, each key once.
\<close>

datatype js_value =
    JNull
  | JBool bool
  | JNumber
  | JString string
  | JArray "js_value list"
  | JObject "(string \<times> js_value) list"

text \<open>
  The result of reading a property: \<open>undefined\<close>, a function inherited from a prototype,
  or a parsed value.
\<close>

datatype js_property = Undefined | Function | Value js_value

text \<open>
  The parts of the JavaScript runtime the service depends on: \<open>JSON.parse\<close>, which returns
  the parsed value or throws a \<open>SyntaxError\<close> (\<open>Inl\<close> its message), and the message of the
  \<open>TypeError\<close> thrown when a property of \<open>null\<close> is read.
\<close>

record js_runtime =
  JSON_parse :: "string \<Rightarrow> string + js_value"
  null_property_message :: string

text \<open>
  \<open>String.prototype.trim\<close> on the code units a \<open>char\<close> can hold: tab, line feed,
  vertical tab, form feed, carriage return, space and no-break space are removed from both ends.
\<close>

definition is_js_whitespace :: "char \<Rightarrow> bool" where
  "is_js_whitespace c =
     (of_char c \<in> {9::nat, 10, 11, 12, 13, 32, 160})"

definition trim :: "string \<Rightarrow> string" where
  "trim s = rev (dropWhile is_js_whitespace (rev (dropWhile is_js_whitespace s)))"

text \<open>Truthiness of a value of type \<open>string | null | undefined\<close>: only a non-empty string.\<close>

fun truthy :: "string option \<Rightarrow> bool" where
  "truthy None = False"
| "truthy (Some s) = (s \<noteq> [])"

section \<open>services/geminiService.ts\<close>

subsection \<open>Module initialisation\<close>

record gemini_client =
  apiKey :: string

definition API_KEY_missing :: string where
  "API_KEY_missing = ''API_KEY environment variable not set.''"

text \<open>
  Evaluating the module reads \<open>process.env.API_KEY\<close> and throws when it is falsy;
  otherwise the client \<open>ai\<close> is built from it.
\<close>

definition load_geminiService :: "(string \<rightharpoonup> string) \<Rightarrow> js_thrown + gemini_client" where
  "load_geminiService env =
     (case env ''API_KEY'' of
        None \<Rightarrow> Inl (ErrorObject PlainError API_KEY_missing)
      | Some k \<Rightarrow>
          if \<not> truthy (Some k) then Inl (ErrorObject PlainError API_KEY_missing)
          else Inr \<lparr>apiKey = k\<rparr>)"

subsection \<open>getVividWarmFilterCss\<close>

text \<open>
  How \<open>ai.models.generateContent\<close> settles: it resolves with a response whose \<open>text\<close> is
  the payload, or it rejects with a thrown value. The code reads \<open>response.text\<close> as a
  string; were it missing, \<open>response.text.trim()\<close> would throw a \<open>TypeError\<close> inside the
  \<open>try\<close> block, which the \<open>catch\<close> block treats as it treats a rejection with that error.
\<close>

datatype api_outcome = Resolved string | Rejected js_thrown

definition empty_response_message :: string where
  "empty_response_message = ''API returned an empty response.''"

definition invalid_filter_message :: string where
  "invalid_filter_message = ''Invalid or empty filter value in API response.''"

definition unexpected_error_message :: string where
  "unexpected_error_message =
     ''An unexpected error occurred while communicating with the Gemini API.''"

text \<open>
  \<open>result.filter\<close>: reading a property of \<open>null\<close> throws a \<open>TypeError\<close>; an object yields
  its own property or \<open>undefined\<close>; an array yields \<open>Array.prototype.filter\<close>; booleans,
  numbers and strings have no such property.
\<close>

fun get_filter :: "js_runtime \<Rightarrow> js_value \<Rightarrow> js_thrown + js_property" where
  "get_filter rt JNull = Inl (ErrorObject TypeError (null_property_message rt))"
| "get_filter rt (JObject props) =
     (case map_of props ''filter'' of None \<Rightarrow> Inr Undefined | Some v \<Rightarrow> Inr (Value v))"
| "get_filter rt (JArray xs) = Inr Function"
| "get_filter rt (JBool b) = Inr Undefined"
| "get_filter rt JNumber = Inr Undefined"
| "get_filter rt (JString s) = Inr Undefined"

text \<open>\<open>typeof p === 'string' && p.length > 0\<close>, returning the string when it holds.\<close>

fun nonempty_string :: "js_property \<Rightarrow> string option" where
  "nonempty_string (Value (JString s)) = (if s \<noteq> [] then Some s else None)"
| "nonempty_string p = None"

text \<open>The body of the \<open>try\<close> block, from the settled call on.\<close>

definition getVividWarmFilterCss_try :: "js_runtime \<Rightarrow> api_outcome \<Rightarrow> js_thrown + string" where
  "getVividWarmFilterCss_try rt outcome =
     (case outcome of
        Rejected e \<Rightarrow> Inl e
      | Resolved text \<Rightarrow>
          let jsonText = trim text in
          if jsonText = [] then Inl (ErrorObject PlainError empty_response_message)
          else
            (case JSON_parse rt jsonText of
               Inl m \<Rightarrow> Inl (ErrorObject SyntaxError m)
             | Inr result \<Rightarrow>
                 (case get_filter rt result of
                    Inl e \<Rightarrow> Inl e
                  | Inr p \<Rightarrow>
                      (case nonempty_string p of
                         Some s \<Rightarrow> Inr s
                       | None \<Rightarrow> Inl (ErrorObject PlainError invalid_filter_message)))))"

text \<open>The \<open>catch\<close> block: whatever was thrown is replaced by a new plain \<open>Error\<close>.\<close>

fun getVividWarmFilterCss_catch :: "js_thrown \<Rightarrow> js_thrown" where
  "getVividWarmFilterCss_catch (ErrorObject c m) =
     ErrorObject PlainError (''Gemini API Error: '' @ m)"
| "getVividWarmFilterCss_catch NonError = ErrorObject PlainError unexpected_error_message"

definition getVividWarmFilterCss :: "js_runtime \<Rightarrow> api_outcome \<Rightarrow> js_thrown + string" where
  "getVividWarmFilterCss rt outcome =
     (case getVividWarmFilterCss_try rt outcome of
        Inl e \<Rightarrow> Inl (getVividWarmFilterCss_catch e)
      | Inr css \<Rightarrow> Inr css)"

section \<open>App.tsx\<close>

subsection \<open>Component state\<close>

text \<open>The four \<open>useState\<close> cells of \<open>App\<close>; \<open>None\<close> is \<open>null\<close>.\<close>

record app_state =
  originalImage :: "string option"
  filteredCss :: "string option"
  isLoading :: bool
  error :: "string option"

definition initial_state :: app_state where
  "initial_state =
     \<lparr>originalImage = None, filteredCss = None, isLoading = False, error = None\<rparr>"

subsection \<open>Handlers\<close>

text \<open>
  \<open>handleImageUpload\<close> starts a \<open>FileReader\<close> and changes no state itself. Its
  \<open>onloadend\<close> callback runs when the read has finished, successfully or not;
  \<open>reader.result\<close> is the data URL, or \<open>null\<close> when the file could not be read.
\<close>

definition handleImageUpload_onloadend :: "string option \<Rightarrow> app_state \<Rightarrow> app_state" where
  "handleImageUpload_onloadend result s =
     s\<lparr>originalImage := result, filteredCss := None, error := None\<rparr>"

text \<open>
  \<open>applyFilter\<close> up to its \<open>await\<close>: \<open>None\<close> when it returns at the guard, otherwise the
  state after the three setters, with \<open>getVividWarmFilterCss\<close> called.
\<close>

definition applyFilter_start :: "app_state \<Rightarrow> app_state option" where
  "applyFilter_start s =
     (if \<not> truthy (originalImage s) then None
      else Some (s\<lparr>isLoading := True, error := None, filteredCss := None\<rparr>))"

definition unknown_error_message :: string where
  "unknown_error_message = ''An unknown error occurred.''"

fun errorMessage :: "js_thrown \<Rightarrow> string" where
  "errorMessage (ErrorObject c m) = m"
| "errorMessage NonError = unknown_error_message"

text \<open>
  \<open>applyFilter\<close> after its \<open>await\<close>: the \<open>try\<close> or the \<open>catch\<close> branch, then \<open>finally\<close>.
\<close>

definition applyFilter_settle :: "js_thrown + string \<Rightarrow> app_state \<Rightarrow> app_state" where
  "applyFilter_settle r s =
     (case r of
        Inr cssFilter \<Rightarrow> s\<lparr>filteredCss := Some cssFilter, isLoading := False\<rparr>
      | Inl err \<Rightarrow>
          s\<lparr>error := Some (''Failed to apply filter. '' @ errorMessage err),
            isLoading := False\<rparr>)"

definition handleReset :: "app_state \<Rightarrow> app_state" where
  "handleReset s =
     s\<lparr>originalImage := None, filteredCss := None, error := None, isLoading := False\<rparr>"

subsection \<open>The running application\<close>

text \<open>
  The component state together with the number of calls of \<open>getVividWarmFilterCss\<close> that
  have been made and have not settled yet. Nothing cancels such a call.
\<close>

record world =
  session :: app_state
  outstanding :: nat

definition initial_world :: world where
  "initial_world = \<lparr>session = initial_state, outstanding = 0\<rparr>"

definition request_filter :: "world \<Rightarrow> world" where
  "request_filter w =
     (case applyFilter_start (session w) of
        None \<Rightarrow> w
      | Some s \<Rightarrow> w\<lparr>session := s, outstanding := Suc (outstanding w)\<rparr>)"

text \<open>
  The events of the session: a file read finishes, \<open>applyFilter\<close> is invoked,
  \<open>handleReset\<close> is invoked, and an outstanding call of the service settles. The component
  is rendered again after each event, so the \<open>originalImage\<close> that \<open>applyFilter\<close> closes
  over is the current one. An event that settles a call when none is outstanding cannot
  occur and is ignored.
\<close>

datatype event =
    ImageLoaded "string option"
  | RequestFilter
  | Reset
  | RequestSettled api_outcome

fun step :: "js_runtime \<Rightarrow> event \<Rightarrow> world \<Rightarrow> world" where
  "step rt (ImageLoaded result) w =
     w\<lparr>session := handleImageUpload_onloadend result (session w)\<rparr>"
| "step rt RequestFilter w = request_filter w"
| "step rt Reset w = w\<lparr>session := handleReset (session w)\<rparr>"
| "step rt (RequestSettled outcome) w =
     (if outstanding w = 0 then w
      else w\<lparr>session := applyFilter_settle (getVividWarmFilterCss rt outcome) (session w),
             outstanding := outstanding w - 1\<rparr>)"

fun run :: "js_runtime \<Rightarrow> event list \<Rightarrow> world \<Rightarrow> world" where
  "run rt [] w = w"
| "run rt (e # es) w = run rt es (step rt e w)"

text \<open>
  The button that invokes \<open>applyFilter\<close> is rendered only while \<open>originalImage\<close> is truthy
  and carries \<open>disabled={isLoading}\<close>; a disabled button delivers no click.
\<close>

definition apply_button_click :: "world \<Rightarrow> world" where
  "apply_button_click w =
     (if truthy (originalImage (session w)) \<and> \<not> isLoading (session w)
      then request_filter w else w)"

text \<open>
  \<open>App.tsx\<close> imports the service module, so the application exists only when that module
  has been evaluated without throwing.
\<close>

definition start_app :: "(string \<rightharpoonup> string) \<Rightarrow> js_thrown + world" where
  "start_app env =
     (case load_geminiService env of
        Inl e \<Rightarrow> Inl e
      | Inr ai \<Rightarrow> Inr initial_world)"

subsection \<open>A runtime for the scenarios\<close>

definition scenario_A_payload :: string where
  \<open>scenario_A_payload = ''{"filter": "saturate(1.2) contrast(1.1)"}''\<close>

definition scenario_B_payload :: string where
  \<open>scenario_B_payload = ''{"filter": ""}''\<close>

text \<open>
  An excerpt of \<open>JSON.parse\<close>: the three well-formed payloads used below are parsed as
  \<open>JSON.parse\<close> parses them; every other text stands for a malformed payload.
\<close>

definition scenario_JSON_parse :: "string \<Rightarrow> string + js_value" where
  "scenario_JSON_parse s =
     (if s = scenario_A_payload
        then Inr (JObject [(''filter'', JString ''saturate(1.2) contrast(1.1)'')])
      else if s = scenario_B_payload then Inr (JObject [(''filter'', JString [])])
      else if s = ''null'' then Inr JNull
      else Inl ''Unexpected token'')"

definition scenario_runtime :: js_runtime where
  \<open>scenario_runtime =
     \<lparr>JSON_parse = scenario_JSON_parse,
      null_property_message = ''Cannot read properties of null (reading 'filter')''\<rparr>\<close>

definition sample_image :: string where
  "sample_image = ''data:image/png;base64,iVBORw0KGgo=''"

subsection \<open>Invariants of the session\<close>

text \<open>While a request is pending, neither a filter nor an error is shown.\<close>

definition pending_clean :: "app_state \<Rightarrow> bool" where
  "pending_clean s = (if isLoading s then filteredCss s = None \<and> error s = None else True)"

text \<open>\<open>pending\<close> and \<open>filter\<close> are not both set.\<close>

definition session_invariant :: "app_state \<Rightarrow> bool" where
  "session_invariant s = (\<not> (isLoading s \<and> filteredCss s \<noteq> None))"

section \<open>Properties\<close>

subsection \<open>Evaluation of the scenarios\<close>

lemma trim_scenario_A: "trim scenario_A_payload = scenario_A_payload"
  by (simp add: trim_def scenario_A_payload_def is_js_whitespace_def)

lemma trim_scenario_B: "trim scenario_B_payload = scenario_B_payload"
  by (simp add: trim_def scenario_B_payload_def is_js_whitespace_def)

lemma trim_null: "trim ''null'' = ''null''"
  by (simp add: trim_def is_js_whitespace_def)

lemma payloads_nonempty: "scenario_A_payload \<noteq> []" "scenario_B_payload \<noteq> []"
  by (simp_all add: scenario_A_payload_def scenario_B_payload_def)

lemma payloads_distinct:
  "scenario_B_payload \<noteq> scenario_A_payload" "''null'' \<noteq> scenario_A_payload"
  "''null'' \<noteq> scenario_B_payload"
  by (simp_all add: scenario_A_payload_def scenario_B_payload_def)

lemma scenario_A_result:
  "getVividWarmFilterCss scenario_runtime (Resolved scenario_A_payload) =
     Inr ''saturate(1.2) contrast(1.1)''"
  by (simp add: getVividWarmFilterCss_def getVividWarmFilterCss_try_def trim_scenario_A
      payloads_nonempty scenario_runtime_def scenario_JSON_parse_def)

lemma ready_world:
  "run rt [ImageLoaded (Some sample_image), RequestFilter] initial_world =
     \<lparr>session = \<lparr>originalImage = Some sample_image, filteredCss = None,
                 isLoading = True, error = None\<rparr>,
      outstanding = 1\<rparr>"
  by (simp add: initial_world_def initial_state_def handleImageUpload_onloadend_def
      request_filter_def applyFilter_start_def sample_image_def)

subsection \<open>A pending session shows neither filter nor error\<close>

lemma pending_clean_step: "pending_clean (session w) \<Longrightarrow> pending_clean (session (step rt e w))"
  by (cases e)
     (auto simp: pending_clean_def handleImageUpload_onloadend_def request_filter_def
        applyFilter_start_def handleReset_def applyFilter_settle_def split: sum.splits if_splits)

lemma pending_clean_run: "pending_clean (session w) \<Longrightarrow> pending_clean (session (run rt es w))"
  by (induction es arbitrary: w) (simp_all add: pending_clean_step)

lemma pending_clean_initial: "pending_clean (session initial_world)"
  by (simp add: pending_clean_def initial_world_def initial_state_def)

subsection \<open>Completions that arrive late\<close>

text \<open>
  C1, as the specification states it, fails: the code keeps no token for a request, so a
  completion that arrives after \<open>handleReset\<close> is applied to the reset session. Here a
  success arriving after upload, request and reset changes the session.
\<close>

theorem stale_completion_counterexample:
  "session (step scenario_runtime (RequestSettled (Resolved scenario_A_payload))
      (run scenario_runtime [ImageLoaded (Some sample_image), RequestFilter, Reset] initial_world))
   \<noteq> session (run scenario_runtime [ImageLoaded (Some sample_image), RequestFilter, Reset]
         initial_world)"
  by (simp add: initial_world_def initial_state_def handleImageUpload_onloadend_def
      request_filter_def applyFilter_start_def sample_image_def handleReset_def
      applyFilter_settle_def getVividWarmFilterCss_def getVividWarmFilterCss_try_def
      trim_scenario_A scenario_runtime_def scenario_JSON_parse_def
      split: sum.splits)

text \<open>
  C1, amended: a completion that arrives after a reset or after a superseding
  \<open>requestFilter\<close> is applied to the current session like any other completion. A success
  sets \<open>filter\<close> to the returned descriptor, a failure sets \<open>error\<close> to the failure message,
  either clears \<open>pending\<close>, and the image is left as it is: absent after a reset, the loaded
  image after a superseding request.
\<close>

theorem stale_completion_is_applied:
  assumes "0 < outstanding w"
  shows "session (step rt (RequestSettled outcome) (step rt Reset w)) =
           (case getVividWarmFilterCss rt outcome of
              Inr css \<Rightarrow>
                \<lparr>originalImage = None, filteredCss = Some css, isLoading = False, error = None\<rparr>
            | Inl e \<Rightarrow>
                \<lparr>originalImage = None, filteredCss = None, isLoading = False,
                  error = Some (''Failed to apply filter. '' @ errorMessage e)\<rparr>)
         \<and> (truthy (originalImage (session w)) \<longrightarrow>
              session (step rt (RequestSettled outcome) (step rt RequestFilter w)) =
                (case getVividWarmFilterCss rt outcome of
                   Inr css \<Rightarrow>
                     \<lparr>originalImage = originalImage (session w), filteredCss = Some css,
                       isLoading = False, error = None\<rparr>
                 | Inl e \<Rightarrow>
                     \<lparr>originalImage = originalImage (session w), filteredCss = None,
                       isLoading = False,
                       error = Some (''Failed to apply filter. '' @ errorMessage e)\<rparr>))"
proof -
  have after_reset: "session (step rt (RequestSettled outcome) (step rt Reset w)) =
      applyFilter_settle (getVividWarmFilterCss rt outcome) (handleReset (session w))"
    using assms by simp
  have after_request: "session (step rt (RequestSettled outcome) (step rt RequestFilter w)) =
      applyFilter_settle (getVividWarmFilterCss rt outcome)
        ((session w)\<lparr>isLoading := True, error := None, filteredCss := None\<rparr>)"
    if "truthy (originalImage (session w))"
    using that by (simp add: request_filter_def applyFilter_start_def)
  show ?thesis
    unfolding after_reset
    using after_request
    by (cases "getVividWarmFilterCss rt outcome")
       (simp_all add: applyFilter_settle_def handleReset_def)
qed

theorem stale_completion_is_applied_witness:
  "session (run scenario_runtime
      [ImageLoaded (Some sample_image), RequestFilter, Reset,
       RequestSettled (Resolved scenario_A_payload)] initial_world) =
     \<lparr>originalImage = None, filteredCss = Some ''saturate(1.2) contrast(1.1)'',
       isLoading = False, error = None\<rparr>
   \<and> session (run scenario_runtime
      [ImageLoaded (Some sample_image), RequestFilter, RequestFilter,
       RequestSettled (Resolved scenario_A_payload)] initial_world) =
     \<lparr>originalImage = Some sample_image,
       filteredCss = Some ''saturate(1.2) contrast(1.1)'',
       isLoading = False, error = None\<rparr>"
proof -
  let ?w = "run scenario_runtime [ImageLoaded (Some sample_image), RequestFilter] initial_world"
  have h: "0 < outstanding ?w"
    unfolding ready_world by simp
  have t: "truthy (originalImage (session ?w))"
    unfolding ready_world by (simp add: sample_image_def)
  have split:
    "run scenario_runtime [ImageLoaded (Some sample_image), RequestFilter, Reset,
       RequestSettled (Resolved scenario_A_payload)] initial_world =
     step scenario_runtime (RequestSettled (Resolved scenario_A_payload))
       (step scenario_runtime Reset ?w)"
    "run scenario_runtime [ImageLoaded (Some sample_image), RequestFilter, RequestFilter,
       RequestSettled (Resolved scenario_A_payload)] initial_world =
     step scenario_runtime (RequestSettled (Resolved scenario_A_payload))
       (step scenario_runtime RequestFilter ?w)"
    by simp_all
  from stale_completion_is_applied [OF h, of scenario_runtime "Resolved scenario_A_payload"] t
  show ?thesis
    unfolding split scenario_A_result by (simp del: run.simps step.simps add: ready_world)
qed

subsection \<open>Requesting while a request is pending\<close>

text \<open>
  C2, as the specification states it, fails: \<open>applyFilter\<close> does not look at \<open>isLoading\<close>.
  Invoked on a loaded image while a request is pending, it calls the service a second time.
\<close>

theorem second_requestFilter_counterexample:
  "isLoading (session (run scenario_runtime
      [ImageLoaded (Some sample_image), RequestFilter] initial_world))
   \<and> step scenario_runtime RequestFilter
        (run scenario_runtime [ImageLoaded (Some sample_image), RequestFilter] initial_world)
     \<noteq> run scenario_runtime [ImageLoaded (Some sample_image), RequestFilter] initial_world
   \<and> outstanding (step scenario_runtime RequestFilter
        (run scenario_runtime [ImageLoaded (Some sample_image), RequestFilter] initial_world))
     = 2"
  unfolding ready_world
  by (simp add: request_filter_def applyFilter_start_def sample_image_def)

text \<open>
  C2, amended: while \<open>pending\<close> is true the button that triggers \<open>requestFilter\<close> is
  disabled, so a click on it issues no request and changes no state. \<open>applyFilter\<close> itself
  has no such guard: invoked in a pending session reached from the initial one, it changes no
  session field (image, filter, pending, error), and it issues one more request exactly when
  an image is loaded.
\<close>

theorem requestFilter_while_pending:
  assumes "w = run rt es initial_world"
    and "isLoading (session w)"
  shows "apply_button_click w = w
     \<and> session (step rt RequestFilter w) = session w
     \<and> outstanding (step rt RequestFilter w) =
         (if truthy (originalImage (session w)) then Suc (outstanding w) else outstanding w)"
proof -
  have "pending_clean (session w)"
    unfolding assms(1) by (rule pending_clean_run [OF pending_clean_initial])
  with assms(2) have clean: "filteredCss (session w) = None" "error (session w) = None"
    by (simp_all add: pending_clean_def)
  have "(session w)\<lparr>isLoading := True, error := None, filteredCss := None\<rparr> = session w"
    using assms(2) clean by simp
  then show ?thesis
    using assms(2) by (simp add: apply_button_click_def request_filter_def applyFilter_start_def)
qed

theorem requestFilter_while_pending_witness:
  "isLoading (session (run scenario_runtime
      [ImageLoaded (Some sample_image), RequestFilter] initial_world))
   \<and> apply_button_click
        (run scenario_runtime [ImageLoaded (Some sample_image), RequestFilter] initial_world)
     = run scenario_runtime [ImageLoaded (Some sample_image), RequestFilter] initial_world
   \<and> run scenario_runtime [ImageLoaded (Some sample_image), RequestFilter, RequestFilter]
        initial_world
     = \<lparr>session = \<lparr>originalImage = Some sample_image, filteredCss = None,
                    isLoading = True, error = None\<rparr>,
        outstanding = 2\<rparr>"
proof -
  let ?w = "run scenario_runtime [ImageLoaded (Some sample_image), RequestFilter] initial_world"
  have h: "isLoading (session ?w)"
    unfolding ready_world by simp
  have t: "truthy (originalImage (session ?w))"
    unfolding ready_world by (simp add: sample_image_def)
  have split: "run scenario_runtime
      [ImageLoaded (Some sample_image), RequestFilter, RequestFilter] initial_world =
      step scenario_runtime RequestFilter ?w"
    by simp
  from requestFilter_while_pending [OF refl h] t h have
    "apply_button_click ?w = ?w"
    "session (step scenario_runtime RequestFilter ?w) = session ?w"
    "outstanding (step scenario_runtime RequestFilter ?w) = Suc (outstanding ?w)"
    by simp_all
  then show ?thesis
    unfolding split using h
    by (simp del: run.simps step.simps add: ready_world world.equality)
qed

subsection \<open>Reset\<close>

text \<open>
  C4: \<open>reset\<close>, from any session state and whether or not a request is pending, yields the
  empty session: image, filter and error absent, pending false.
\<close>

theorem reset_yields_empty_session:
  "session (step rt Reset w) =
     \<lparr>originalImage = None, filteredCss = None, isLoading = False, error = None\<rparr>
   \<and> session (step rt Reset w) = initial_state"
  by (simp add: handleReset_def initial_state_def)

subsection \<open>Requesting without an image\<close>

text \<open>
  C7: \<open>requestFilter\<close> in a session without an image changes nothing: every session field
  stays as it is and no call of the service is made, through the handler and through the
  button alike.
\<close>

theorem requestFilter_in_Idle_is_noop:
  assumes "originalImage (session w) = None"
  shows "step rt RequestFilter w = w \<and> apply_button_click w = w"
  using assms by (simp add: request_filter_def applyFilter_start_def apply_button_click_def)

theorem requestFilter_in_Idle_is_noop_witness:
  "originalImage (session initial_world) = None
   \<and> step scenario_runtime RequestFilter initial_world = initial_world
   \<and> apply_button_click initial_world = initial_world"
proof -
  have h: "originalImage (session initial_world) = None"
    by (simp add: initial_world_def initial_state_def)
  from requestFilter_in_Idle_is_noop [OF h, of scenario_runtime] h show ?thesis by simp
qed

subsection \<open>The session invariant\<close>

text \<open>
  C3: after every event of every sequence of events from the initial session (image loaded,
  filter requested, reset, and completions of requests as well), \<open>pending\<close> and \<open>filter\<close>
  are not both set. Whenever \<open>requestFilter\<close> starts a request, the session it leaves is
  pending with \<open>filter\<close> and \<open>error\<close> cleared, and \<open>reset\<close> clears \<open>error\<close>.
\<close>

theorem invariant_after_every_event:
  "session_invariant (session (run rt (take n es) initial_world))
   \<and> (applyFilter_start (session w) = Some s \<longrightarrow>
        step rt RequestFilter w = w\<lparr>session := s, outstanding := Suc (outstanding w)\<rparr>
        \<and> isLoading s \<and> filteredCss s = None \<and> error s = None \<and> session_invariant s)
   \<and> error (session (step rt Reset w)) = None
   \<and> session_invariant (session (step rt Reset w))"
proof -
  have "pending_clean (session (run rt (take n es) initial_world))"
    by (rule pending_clean_run [OF pending_clean_initial])
  then have "session_invariant (session (run rt (take n es) initial_world))"
    by (simp add: pending_clean_def session_invariant_def split: if_splits)
  then show ?thesis
    by (auto simp: applyFilter_start_def request_filter_def handleReset_def
        session_invariant_def split: if_splits)
qed

theorem invariant_after_every_event_witness:
  "session_invariant (session (run scenario_runtime
      [ImageLoaded (Some sample_image), RequestFilter] initial_world))
   \<and> error (session (run scenario_runtime
      [ImageLoaded (Some sample_image), RequestFilter,
       RequestSettled (Rejected (ErrorObject OtherError ''timeout'')), RequestFilter]
      initial_world)) = None"
proof -
  let ?es = "[ImageLoaded (Some sample_image), RequestFilter,
       RequestSettled (Rejected (ErrorObject OtherError ''timeout'')), RequestFilter]"
  let ?w = "run scenario_runtime (take 3 ?es) initial_world"
  let ?s = "\<lparr>originalImage = Some sample_image, filteredCss = None, isLoading = True,
      error = None\<rparr>"
  have failed: "session ?w = \<lparr>originalImage = Some sample_image, filteredCss = None,
      isLoading = False, error = Some ''Failed to apply filter. Gemini API Error: timeout''\<rparr>"
    by (simp add: initial_world_def initial_state_def handleImageUpload_onloadend_def
      request_filter_def applyFilter_start_def sample_image_def applyFilter_settle_def
      getVividWarmFilterCss_def getVividWarmFilterCss_try_def)
  have start: "applyFilter_start (session ?w) = Some ?s"
    unfolding failed by (simp add: applyFilter_start_def sample_image_def)
  have split: "run scenario_runtime ?es initial_world = step scenario_runtime RequestFilter ?w"
    by simp
  have two: "take 2 ?es = [ImageLoaded (Some sample_image), RequestFilter]"
    by simp
  from invariant_after_every_event [of scenario_runtime 2 ?es ?w ?s] start
  show ?thesis
    unfolding split two by (simp del: run.simps step.simps)
qed

subsection \<open>Validation of the response\<close>

text \<open>
  The checks of \<open>getVividWarmFilterCss\<close> in their order: an empty trimmed payload, a payload
  that \<open>JSON.parse\<close> rejects, a parsed value other than \<open>null\<close> whose \<open>filter\<close> is not a
  non-empty string, and the accepted case.
\<close>

lemma response_classification:
  "trim text = [] \<Longrightarrow>
     getVividWarmFilterCss_try rt (Resolved text) =
       Inl (ErrorObject PlainError empty_response_message)"
  "trim text \<noteq> [] \<Longrightarrow> JSON_parse rt (trim text) = Inl m \<Longrightarrow>
     getVividWarmFilterCss_try rt (Resolved text) = Inl (ErrorObject SyntaxError m)"
  "trim text \<noteq> [] \<Longrightarrow> JSON_parse rt (trim text) = Inr v \<Longrightarrow>
   get_filter rt v = Inr p \<Longrightarrow> nonempty_string p = None \<Longrightarrow>
     getVividWarmFilterCss_try rt (Resolved text) =
       Inl (ErrorObject PlainError invalid_filter_message)"
  "trim text \<noteq> [] \<Longrightarrow> JSON_parse rt (trim text) = Inr v \<Longrightarrow>
   get_filter rt v = Inr p \<Longrightarrow> nonempty_string p = Some s \<Longrightarrow>
     getVividWarmFilterCss_try rt (Resolved text) = Inr s"
  by (simp_all add: getVividWarmFilterCss_try_def)

lemma get_filter_not_null: "v \<noteq> JNull \<Longrightarrow> \<exists>p. get_filter rt v = Inr p"
  by (cases v) (simp_all split: option.splits)

lemma null_payload_general:
  "JSON_parse rt ''null'' = Inr JNull \<Longrightarrow>
   getVividWarmFilterCss_try rt (Resolved ''null'') =
     Inl (ErrorObject TypeError (null_property_message rt))"
  by (simp add: getVividWarmFilterCss_try_def trim_null)

text \<open>
  C5 does not hold of the code at the payload \<open>null\<close>: \<open>JSON.parse\<close> accepts it, its
  \<open>filter\<close> is not a non-empty string, and yet the failure is not the one for an invalid
  filter value. \<open>result.filter\<close> is read without a check for \<open>null\<close>, so a \<open>TypeError\<close> is
  thrown, and the caller receives its message.
\<close>

theorem null_payload_throws_TypeError:
  "getVividWarmFilterCss_try scenario_runtime (Resolved ''null'') =
     Inl (ErrorObject TypeError (null_property_message scenario_runtime))
   \<and> getVividWarmFilterCss scenario_runtime (Resolved ''null'') =
     Inl (ErrorObject PlainError
       (''Gemini API Error: '' @ null_property_message scenario_runtime))
   \<and> getVividWarmFilterCss scenario_runtime (Resolved ''null'') \<noteq>
     Inl (ErrorObject PlainError (''Gemini API Error: '' @ invalid_filter_message))"
proof -
  have "JSON_parse scenario_runtime ''null'' = Inr JNull"
    by (simp add: scenario_runtime_def scenario_JSON_parse_def payloads_distinct)
  then have "getVividWarmFilterCss_try scenario_runtime (Resolved ''null'') =
      Inl (ErrorObject TypeError (null_property_message scenario_runtime))"
    by (rule null_payload_general)
  then show ?thesis
    by (simp add: getVividWarmFilterCss_def scenario_runtime_def invalid_filter_message_def)
qed

subsection \<open>A file that cannot be read\<close>

text \<open>
  C6, as the specification states it, fails: when the read of the file fails, \<open>onloadend\<close>
  still runs, with \<open>reader.result\<close> being \<open>null\<close>, and it clears \<open>error\<close>. No error is set.
\<close>

theorem failed_ingestion_counterexample:
  "error (session (step scenario_runtime (ImageLoaded None) initial_world)) = None"
  by (simp add: handleImageUpload_onloadend_def)

text \<open>
  C6, amended: when the ingestion of a file fails, the image field is unset afterwards,
  \<open>filter\<close> and \<open>error\<close> are cleared and \<open>pending\<close> is unchanged, so the failure is not
  surfaced as a session error; a session that was the empty Idle session stays so.
\<close>

theorem failed_ingestion_clears_error:
  "session (step rt (ImageLoaded None) w) =
     \<lparr>originalImage = None, filteredCss = None, isLoading = isLoading (session w),
       error = None\<rparr>
   \<and> outstanding (step rt (ImageLoaded None) w) = outstanding w
   \<and> step rt (ImageLoaded None) initial_world = initial_world"
  by (simp add: handleImageUpload_onloadend_def initial_world_def initial_state_def)

subsection \<open>The credential\<close>

text \<open>
  C8: when \<open>API_KEY\<close> is absent from the process environment, evaluating the service
  module throws the configuration error at once, and the application, which imports the
  module, does not come into existence: there is no session from which a request could be
  made.
\<close>

theorem missing_credential_fails_at_startup:
  assumes "env ''API_KEY'' = None"
  shows "load_geminiService env =
           Inl (ErrorObject PlainError ''API_KEY environment variable not set.'')
         \<and> start_app env =
           Inl (ErrorObject PlainError ''API_KEY environment variable not set.'')
         \<and> (\<forall>w. start_app env \<noteq> Inr w)"
  using assms by (simp add: load_geminiService_def start_app_def API_KEY_missing_def)

theorem missing_credential_fails_at_startup_witness:
  "start_app Map.empty = Inl (ErrorObject PlainError ''API_KEY environment variable not set.'')"
proof -
  have h: "(Map.empty :: string \<rightharpoonup> string) ''API_KEY'' = None"
    by simp
  from missing_credential_fails_at_startup [OF h] show ?thesis
    by (rule conjunct2 [THEN conjunct1])
qed

subsection \<open>The success path\<close>

text \<open>
  C9: in a session that is requesting (image loaded, pending, no filter, no error, a call
  outstanding), when the service resolves with a payload that parses to an object whose
  \<open>filter\<close> is a non-empty string, the client returns exactly that string and the session
  becomes: same image, \<open>filter\<close> that string, \<open>pending\<close> false, \<open>error\<close> unset.
\<close>

theorem success_sets_filter:
  assumes "trim text \<noteq> []"
    and "JSON_parse rt (trim text) = Inr (JObject props)"
    and "map_of props ''filter'' = Some (JString descriptor)"
    and "descriptor \<noteq> []"
    and "truthy (originalImage (session w))"
    and "isLoading (session w)"
    and "filteredCss (session w) = None"
    and "error (session w) = None"
    and "0 < outstanding w"
  shows "getVividWarmFilterCss rt (Resolved text) = Inr descriptor
     \<and> step rt (RequestSettled (Resolved text)) w =
         \<lparr>session = \<lparr>originalImage = originalImage (session w),
                      filteredCss = Some descriptor, isLoading = False, error = None\<rparr>,
          outstanding = outstanding w - 1\<rparr>"
proof -
  have r: "getVividWarmFilterCss rt (Resolved text) = Inr descriptor"
    using assms(1-4) by (simp add: getVividWarmFilterCss_def getVividWarmFilterCss_try_def)
  show ?thesis
    unfolding r using assms(8,9) by (simp add: r applyFilter_settle_def)
qed

theorem success_sets_filter_witness:
  "run scenario_runtime
     [ImageLoaded (Some sample_image), RequestFilter,
      RequestSettled (Resolved scenario_A_payload)] initial_world =
     \<lparr>session = \<lparr>originalImage = Some sample_image,
                  filteredCss = Some ''saturate(1.2) contrast(1.1)'',
                  isLoading = False, error = None\<rparr>,
      outstanding = 0\<rparr>"
proof -
  let ?w = "run scenario_runtime [ImageLoaded (Some sample_image), RequestFilter] initial_world"
  have h1: "trim scenario_A_payload \<noteq> []"
    by (simp add: trim_scenario_A payloads_nonempty)
  have h2: "JSON_parse scenario_runtime (trim scenario_A_payload) =
      Inr (JObject [(''filter'', JString ''saturate(1.2) contrast(1.1)'')])"
    by (simp add: trim_scenario_A scenario_runtime_def scenario_JSON_parse_def)
  have h3: "map_of [(''filter'', JString ''saturate(1.2) contrast(1.1)'')] ''filter'' =
      Some (JString ''saturate(1.2) contrast(1.1)'')"
    by simp
  have h4: "''saturate(1.2) contrast(1.1)'' \<noteq> []"
    by simp
  have h5: "truthy (originalImage (session ?w))"
    unfolding ready_world by (simp add: sample_image_def)
  have h6: "isLoading (session ?w)" and h7: "filteredCss (session ?w) = None"
    and h8: "error (session ?w) = None" and h9: "0 < outstanding ?w"
    unfolding ready_world by simp_all
  have split: "run scenario_runtime
     [ImageLoaded (Some sample_image), RequestFilter,
      RequestSettled (Resolved scenario_A_payload)] initial_world =
     step scenario_runtime (RequestSettled (Resolved scenario_A_payload)) ?w"
    by simp
  from success_sets_filter [OF h1 h2 h3 h4 h5 h6 h7 h8 h9]
  show ?thesis
    unfolding split by (simp del: run.simps step.simps add: ready_world)
qed

subsection \<open>The single channel of failures\<close>

lemma catch_is_plain_error: "\<exists>m. getVividWarmFilterCss_catch e = ErrorObject PlainError m"
  by (cases e) simp_all

lemma getVividWarmFilterCss_failure_class:
  "getVividWarmFilterCss rt outcome = Inl e \<Longrightarrow> \<exists>m. e = ErrorObject PlainError m"
  unfolding getVividWarmFilterCss_def
  by (cases "getVividWarmFilterCss_try rt outcome") (auto simp: catch_is_plain_error)

lemma scenario_B_try:
  "getVividWarmFilterCss_try scenario_runtime (Resolved scenario_B_payload) =
     Inl (ErrorObject PlainError invalid_filter_message)"
  by (simp add: getVividWarmFilterCss_try_def trim_scenario_B payloads_nonempty
      payloads_distinct scenario_runtime_def scenario_JSON_parse_def)

text \<open>
  C10: every failure of \<open>getVividWarmFilterCss\<close> reaches the caller as a newly made plain
  \<open>Error\<close>. An \<open>Error\<close> of any class thrown inside the \<open>try\<close> block, by the service call or by
  the client's own checks, comes back with its message prefixed by \<open>Gemini API Error: \<close>;
  a thrown value that is not an \<open>Error\<close> comes back as the fixed fallback message. The
  class of the original error is lost: only the message tells the failures apart.
\<close>

theorem failures_are_rethrown_as_plain_errors:
  "getVividWarmFilterCss rt (Rejected (ErrorObject c m)) =
     Inl (ErrorObject PlainError (''Gemini API Error: '' @ m))
   \<and> getVividWarmFilterCss rt (Rejected NonError) =
     Inl (ErrorObject PlainError
       ''An unexpected error occurred while communicating with the Gemini API.'')
   \<and> (getVividWarmFilterCss_try rt outcome = Inl (ErrorObject c m) \<longrightarrow>
        getVividWarmFilterCss rt outcome =
          Inl (ErrorObject PlainError (''Gemini API Error: '' @ m)))
   \<and> (getVividWarmFilterCss_try rt outcome = Inl NonError \<longrightarrow>
        getVividWarmFilterCss rt outcome =
          Inl (ErrorObject PlainError
            ''An unexpected error occurred while communicating with the Gemini API.''))
   \<and> (trim text = [] \<longrightarrow>
        getVividWarmFilterCss rt (Resolved text) =
          Inl (ErrorObject PlainError ''Gemini API Error: API returned an empty response.''))
   \<and> (\<forall>e. getVividWarmFilterCss rt outcome = Inl e \<longrightarrow> (\<exists>m'. e = ErrorObject PlainError m'))"
proof -
  have "\<forall>e. getVividWarmFilterCss rt outcome = Inl e \<longrightarrow> (\<exists>m'. e = ErrorObject PlainError m')"
    using getVividWarmFilterCss_failure_class by blast
  then show ?thesis
    by (simp add: getVividWarmFilterCss_def getVividWarmFilterCss_try_def
        unexpected_error_message_def empty_response_message_def)
qed

theorem failures_are_rethrown_as_plain_errors_witness:
  "getVividWarmFilterCss scenario_runtime (Rejected (ErrorObject OtherError ''timeout'')) =
     Inl (ErrorObject PlainError ''Gemini API Error: timeout'')
   \<and> getVividWarmFilterCss scenario_runtime (Resolved [CHR '' '', CHR 0x0A]) =
     Inl (ErrorObject PlainError ''Gemini API Error: API returned an empty response.'')
   \<and> getVividWarmFilterCss scenario_runtime (Resolved scenario_B_payload) =
     Inl (ErrorObject PlainError
       ''Gemini API Error: Invalid or empty filter value in API response.'')"
proof -
  have blank: "trim [CHR '' '', CHR 0x0A] = []"
    by (simp add: trim_def is_js_whitespace_def)
  from failures_are_rethrown_as_plain_errors
    [of scenario_runtime OtherError "''timeout''" "Resolved scenario_B_payload"
      "[CHR '' '', CHR 0x0A]"] blank
  have a: "getVividWarmFilterCss scenario_runtime (Rejected (ErrorObject OtherError ''timeout''))
      = Inl (ErrorObject PlainError ''Gemini API Error: timeout'')"
    and b: "getVividWarmFilterCss scenario_runtime (Resolved [CHR '' '', CHR 0x0A]) =
      Inl (ErrorObject PlainError ''Gemini API Error: API returned an empty response.'')"
    by simp_all
  from failures_are_rethrown_as_plain_errors
    [of scenario_runtime PlainError invalid_filter_message "Resolved scenario_B_payload"]
    scenario_B_try
  have c: "getVividWarmFilterCss scenario_runtime (Resolved scenario_B_payload) =
     Inl (ErrorObject PlainError
       ''Gemini API Error: Invalid or empty filter value in API response.'')"
    by (simp add: invalid_filter_message_def)
  from a b c show ?thesis by simp
qed

end
